theory Spec2Isabelle
  imports Main
begin

section \<open>Go library types used by the driver\<close>

subsection \<open>Package civil: timezone-less dates and times\<close>

text \<open>
  \<^verbatim>\<open>civil.Date{Year int; Month time.Month; Day int}\<close>,
  \<^verbatim>\<open>civil.Time{Hour, Minute, Second, Nanosecond int}\<close> and
  \<^verbatim>\<open>civil.DateTime{Date; Time}\<close> are plain structs with exported integer fields:
  every combination of field values is a value of the type, also one that names no day of
  the calendar (February 30).  The fields are modelled by \<open>int\<close>: the driver does no
  arithmetic on them, it only hands them to \<^verbatim>\<open>time.Date\<close>, where the 64-bit
  wrap-around is written out.
\<close>

record civil_Date =
  Year :: int
  Month :: int
  Day :: int

record civil_Time =
  Hour :: int
  Minute :: int
  Second :: int
  Nanosecond :: int

record civil_DateTime =
  Date :: civil_Date
  Time :: civil_Time

subsection \<open>Package time: absolute timestamps\<close>

text \<open>
  A \<^verbatim>\<open>time.Time\<close> is represented by the fields its accessors \<^verbatim>\<open>Year()\<close>,
  \<^verbatim>\<open>Month()\<close>, \<^verbatim>\<open>Day()\<close>, \<^verbatim>\<open>Hour()\<close>, \<^verbatim>\<open>Minute()\<close>, \<^verbatim>\<open>Second()\<close>,
  \<^verbatim>\<open>Nanosecond()\<close> and \<^verbatim>\<open>Location()\<close> report.  The driver only ever builds
  timestamps in \<^verbatim>\<open>time.UTC\<close>.
\<close>

datatype Location = UTC | Local

record time_Time =
  year :: int
  month :: int
  day :: int
  hour :: int
  minute :: int
  second :: int
  nanosecond :: int
  location :: Location

text \<open>
  \<^verbatim>\<open>time.Date(year, month, day, hour, min, sec, nsec, loc)\<close> belongs to the Go standard
  library, not to the repository.  Its documentation: ``The month, day, hour, min, sec, and
  nsec values may be outside their usual ranges and will be normalized during the conversion.
  For example, October 32 converts to November 1.''

  Go's \<^verbatim>\<open>int\<close> and \<^verbatim>\<open>int64\<close> are 64 bits wide and wrap around, as does
  \<^verbatim>\<open>uint64\<close>: \<open>i64\<close> and \<open>u64\<close> bring an integer back into the signed and the
  unsigned range.  The library's helper \<^verbatim>\<open>norm(hi, lo, base)\<close> carries the overflow of
  one field into the next.
\<close>

definition u64 :: "int \<Rightarrow> int" where
  "u64 x = x mod 18446744073709551616"

definition i64 :: "int \<Rightarrow> int" where
  "i64 x = (x + 9223372036854775808) mod 18446744073709551616 - 9223372036854775808"

definition norm :: "int \<Rightarrow> int \<Rightarrow> int \<Rightarrow> int \<times> int" where
  "norm hi lo base =
     (let (hi1, lo1) =
            (if lo < 0
             then (let n = i64 (- lo - 1) div base + 1 in (i64 (hi - n), i64 (lo + n * base)))
             else (hi, lo))
      in if lo1 \<ge> base
         then (let n = lo1 div base in (i64 (hi1 + n), i64 (lo1 - n * base)))
         else (hi1, lo1))"

definition isLeap :: "int \<Rightarrow> bool" where
  "isLeap y = (y mod 4 = 0 \<and> (y mod 100 \<noteq> 0 \<or> y mod 400 = 0))"

definition daysIn :: "int \<Rightarrow> int \<Rightarrow> int" where
  "daysIn m y =
     (if m = 2 then (if isLeap y then 29 else 28)
      else if m = 4 \<or> m = 6 \<or> m = 9 \<or> m = 11 then 30
      else 31)"

text \<open>
  The library normalises the day by counting: it counts the seconds from the first instant
  of the year \<open>- 292277022399\<close> in a \<^verbatim>\<open>uint64\<close> and reads the fields back from that
  count (\<^verbatim>\<open>daysSinceEpoch\<close>, \<^verbatim>\<open>absDate\<close>, \<^verbatim>\<open>absClock\<close>).  The count wraps
  around for years further than about \<open>2.9 * 10^11\<close> from year 1, and the fields read
  back are then not those put in: year \<open>300000000000\<close> comes back as year
  \<open>- 284554049254\<close>.  \<open>time_Date\<close> follows the library's arithmetic step by step, with
  every 64-bit operation wrapped.
\<close>

definition absoluteZeroYear :: int where
  "absoluteZeroYear = - 292277022399"

definition daysBefore :: "int \<Rightarrow> int" where
  "daysBefore m = [0, 31, 59, 90, 120, 151, 181, 212, 243, 273, 304, 334, 365] ! nat m"

definition daysSinceEpoch :: "int \<Rightarrow> int" where
  "daysSinceEpoch y =
     (let y0 = u64 (y - absoluteZeroYear);
          n400 = y0 div 400;
          y1 = y0 - 400 * n400;
          n100 = y1 div 100;
          y2 = y1 - 100 * n100;
          n4 = y2 div 4;
          y3 = y2 - 4 * n4
      in u64 (146097 * n400 + 36524 * n100 + 1461 * n4 + 365 * y3))"

definition absDate :: "int \<Rightarrow> int \<times> int \<times> int" where
  "absDate a =
     (let d0 = a div 86400;
          n400 = d0 div 146097;
          d1 = d0 - 146097 * n400;
          n100 = d1 div 36524 - (d1 div 36524) div 4;
          d2 = d1 - 36524 * n100;
          n4 = d2 div 1461;
          d3 = d2 - 1461 * n4;
          n1 = d3 div 365 - (d3 div 365) div 4;
          yday = d3 - 365 * n1;
          y = i64 (u64 (400 * n400 + 100 * n100 + 4 * n4 + n1) + absoluteZeroYear)
      in if isLeap y \<and> yday = 31 + 29 - 1 then (y, 2, 29)
         else
           (let dd = (if isLeap y \<and> yday > 31 + 29 - 1 then yday - 1 else yday);
                m = dd div 31;
                e = daysBefore (m + 1)
            in if dd \<ge> e then (y, m + 2, dd - e + 1)
               else (y, m + 1, dd - daysBefore m + 1)))"

definition time_Date ::
  "int \<Rightarrow> int \<Rightarrow> int \<Rightarrow> int \<Rightarrow> int \<Rightarrow> int \<Rightarrow> int \<Rightarrow> Location \<Rightarrow> time_Time" where
  "time_Date y mon d h mi s ns loc =
     (let (y1, m0) = norm y (i64 (mon - 1)) 12;
          (s1, ns1) = norm s ns 1000000000;
          (mi1, s2) = norm mi s1 60;
          (h1, mi2) = norm h mi1 60;
          (d1, h2) = norm d h1 24;
          days = u64 (daysSinceEpoch y1 + daysBefore m0 +
                      (if isLeap y1 \<and> m0 + 1 \<ge> 3 then 1 else 0) + (d1 - 1));
          a = u64 (days * 86400 + (h2 * 3600 + mi2 * 60 + s2));
          (y2, m2, d2) = absDate a;
          clock = a mod 86400
      in \<lparr>year = y2, month = m2, day = d2, hour = clock div 3600,
          minute = (clock mod 3600) div 60, second = clock mod 60,
          nanosecond = ns1, location = loc\<rparr>)"

text \<open>
  \<^verbatim>\<open>Time.Format\<close> under the layout \<^verbatim>\<open>"15:04:05.000000"\<close> (the constant
  \<^verbatim>\<open>BigQueryTimeLayout\<close>): two digits each for hour, minute and second, then the
  fraction of the second cut to six digits.
\<close>

definition digit :: "int \<Rightarrow> char" where
  "digit n = ''0123456789'' ! nat (n mod 10)"

definition pad2 :: "int \<Rightarrow> string" where
  "pad2 n = [digit (n div 10), digit n]"

definition pad6 :: "int \<Rightarrow> string" where
  "pad6 n = [digit (n div 100000), digit (n div 10000), digit (n div 1000),
             digit (n div 100), digit (n div 10), digit n]"

definition Format_BigQueryTimeLayout :: "time_Time \<Rightarrow> string" where
  "Format_BigQueryTimeLayout t =
     pad2 (hour t) @ '':'' @ pad2 (minute t) @ '':'' @ pad2 (second t) @ ''.'' @
     pad6 (nanosecond t div 1000)"

subsection \<open>Package bigquery: schemas and values\<close>

text \<open>
  \<^verbatim>\<open>bigquery.FieldType\<close> is a string type; the three temporal tags the driver tests for
  are the library's constants.  A \<^verbatim>\<open>bigquery.Schema\<close> is a slice of field schemas, each
  with a name, a type tag and its own nested schema.
\<close>

type_synonym FieldType = string

definition DateFieldType :: FieldType where
  "DateFieldType = ''DATE''"

definition TimeFieldType :: FieldType where
  "TimeFieldType = ''TIME''"

definition DateTimeFieldType :: FieldType where
  "DateTimeFieldType = ''DATETIME''"

datatype FieldSchema =
  FieldSchema (FieldSchema_Name: string) (FieldSchema_Type: FieldType)
              (FieldSchema_Schema: "FieldSchema list")

type_synonym Schema = "FieldSchema list"

text \<open>
  \<^verbatim>\<open>bigquery.Value\<close> and \<^verbatim>\<open>driver.Value\<close> are both the empty interface: one
  datatype holds every dynamic type the driver inspects.  \<open>VSlice\<close> is
  \<^verbatim>\<open>[]bigquery.Value\<close>, \<open>VRerouted values schema\<close> is the struct
  \<^verbatim>\<open>bigQueryReroutedColumn{values, schema}\<close> (columns.go:37), \<open>VNamedValue\<close> is a
  \<^verbatim>\<open>driver.NamedValue\<close> boxed as a value (statement.go:206).  A type assertion
  \<^verbatim>\<open>v, ok := value.(T)\<close> is the discriminator of \<open>T\<close>'s constructor followed by its
  selector.
\<close>

datatype Value =
    VNil
  | VBool bool
  | VInt int
  | VString string
  | is_civil_Date: VCivilDate (civilDate: civil_Date)
  | is_civil_Time: VCivilTime (civilTime: civil_Time)
  | is_civil_DateTime: VCivilDateTime (civilDateTime: civil_DateTime)
  | VTime time_Time
  | is_slice: VSlice (slice: "Value list")
  | is_bigQueryReroutedColumn: VRerouted (rerouted_values: "Value list") (rerouted_schema: Schema)
  | is_NamedValue: VNamedValue (boxed_Name: string) (boxed_Ordinal: int) (boxed_Value: Value)

subsection \<open>Errors and adaptors\<close>

text \<open>Every error the driver itself raises is \<^verbatim>\<open>errors.New(message)\<close>.\<close>

datatype error = errors_New string

text \<open>
  The interfaces of package adaptor, as records of their methods.  A nil interface value is
  \<open>None\<close>.  An adaptor is taken to compute its result from its argument alone.
\<close>

record SchemaColumnAdaptor =
  AdaptValue :: "Value \<Rightarrow> Value \<times> error option"

record SchemaAdaptor =
  GetColumnAdaptor :: "string \<Rightarrow> SchemaColumnAdaptor option"

section \<open>columns.go\<close>

record bigQueryColumn =
  Name :: string
  Schema :: Schema
  Adaptor :: "SchemaColumnAdaptor option"
  FieldType :: FieldType

record bigQueryColumns =
  names :: "string list"
  columns :: "bigQueryColumn list"

text \<open>
  \<^verbatim>\<open>bigQueryColumn.ConvertValue\<close> (columns.go:53).  The TIME branch reads the clock
  (\<^verbatim>\<open>time.Now().UTC()\<close>); the reading is the argument \<open>now\<close>.  The result is Go's
  pair of a value and an error, \<open>None\<close> for a nil error.
\<close>

definition ConvertValue :: "time_Time \<Rightarrow> bigQueryColumn \<Rightarrow> Value \<Rightarrow> Value \<times> error option" where
  "ConvertValue now column v =
     (if FieldType column = DateFieldType \<and> is_civil_Date v then
        (let d = civilDate v
         in (VTime (time_Date (Year d) (Month d) (Day d) 0 0 0 0 UTC), None))
      else if FieldType column = TimeFieldType \<and> is_civil_Time v then
        (let t = civilTime v
         in (VTime (time_Date (year now) (month now) (day now)
                      (Hour t) (Minute t) (Second t) (Nanosecond t) UTC), None))
      else if FieldType column = DateTimeFieldType \<and> is_civil_DateTime v then
        (let dt = civilDateTime v
         in (VTime (time_Date (Year (Date dt)) (Month (Date dt)) (Day (Date dt))
                      (Hour (Time dt)) (Minute (Time dt)) (Second (Time dt))
                      (Nanosecond (Time dt)) UTC), None))
      else if length (Schema column) = 0 then (v, None)
      else
        (let w = (if is_slice v then
                    (let vs = slice v;
                         vs' = (if length vs > 0 \<and> \<not> is_slice (vs ! 0)
                                then [VSlice vs] else vs)
                     in VRerouted vs' (Schema column))
                  else v)
         in case Adaptor column of
              Some columnAdaptor \<Rightarrow> AdaptValue columnAdaptor w
            | None \<Rightarrow> (w, None)))"

text \<open>
  The later revision of the same method (unnamed/part\_000:56).  It adds a nil test before
  each type assertion, and turns a TIME into the string \<^verbatim>\<open>HH:MM:SS.ffffff\<close> instead
  of a timestamp on today's date: it does not read the clock.
\<close>

definition ConvertValue_part_000 :: "bigQueryColumn \<Rightarrow> Value \<Rightarrow> Value \<times> error option" where
  "ConvertValue_part_000 column v =
     (if FieldType column = DateFieldType \<and> v \<noteq> VNil \<and> is_civil_Date v then
        (let d = civilDate v
         in (VTime (time_Date (Year d) (Month d) (Day d) 0 0 0 0 UTC), None))
      else if FieldType column = DateTimeFieldType \<and> v \<noteq> VNil \<and> is_civil_DateTime v then
        (let dt = civilDateTime v
         in (VTime (time_Date (Year (Date dt)) (Month (Date dt)) (Day (Date dt))
                      (Hour (Time dt)) (Minute (Time dt)) (Second (Time dt))
                      (Nanosecond (Time dt)) UTC), None))
      else if FieldType column = TimeFieldType \<and> v \<noteq> VNil \<and> is_civil_Time v then
        (let t = civilTime v;
             tempTime = time_Date 2000 1 1 (Hour t) (Minute t) (Second t) (Nanosecond t) UTC
         in (VString (Format_BigQueryTimeLayout tempTime), None))
      else if length (Schema column) = 0 then (v, None)
      else
        (let w = (if is_slice v then
                    (let vs = slice v;
                         vs' = (if length vs > 0 \<and> \<not> is_slice (vs ! 0)
                                then [VSlice vs] else vs)
                     in VRerouted vs' (Schema column))
                  else v)
         in case Adaptor column of
              Some columnAdaptor \<Rightarrow> AdaptValue columnAdaptor w
            | None \<Rightarrow> (w, None)))"

text \<open>\<^verbatim>\<open>bigQueryColumns.ConvertColumnValue\<close> (columns.go:24) and \<^verbatim>\<open>ColumnNames\<close>.\<close>

definition ConvertColumnValue ::
  "time_Time \<Rightarrow> bigQueryColumns \<Rightarrow> int \<Rightarrow> Value \<Rightarrow> Value \<times> error option" where
  "ConvertColumnValue now cs index v =
     (if index > - 1 \<and> int (length (columns cs)) > index
      then ConvertValue now (columns cs ! nat index) v
      else (v, None))"

definition ColumnNames :: "bigQueryColumns \<Rightarrow> string list" where
  "ColumnNames cs = names cs"

text \<open>
  \<^verbatim>\<open>createBigQuerySchema\<close> (columns.go:106): the loop appends one name and one column
  per field of the schema; the accumulators start as nil slices.
\<close>

fun createBigQuerySchema_loop ::
  "SchemaAdaptor option \<Rightarrow> Schema \<Rightarrow> string list \<Rightarrow> bigQueryColumn list \<Rightarrow> bigQueryColumns" where
  "createBigQuerySchema_loop schemaAdaptor [] ns cols = \<lparr>names = ns, columns = cols\<rparr>"
| "createBigQuerySchema_loop schemaAdaptor (column # rest) ns cols =
     (let name = FieldSchema_Name column;
          columnAdaptor = (case schemaAdaptor of
                             None \<Rightarrow> None
                           | Some sa \<Rightarrow> GetColumnAdaptor sa name)
      in createBigQuerySchema_loop schemaAdaptor rest (ns @ [name])
           (cols @ [\<lparr>Name = name, Schema = FieldSchema_Schema column,
                     Adaptor = columnAdaptor, FieldType = FieldSchema_Type column\<rparr>]))"

definition createBigQuerySchema :: "Schema \<Rightarrow> SchemaAdaptor option \<Rightarrow> bigQueryColumns" where
  "createBigQuerySchema schema schemaAdaptor =
     createBigQuerySchema_loop schemaAdaptor schema [] []"

section \<open>statement.go\<close>

record NamedValue =
  NamedValue_Name :: string
  Ordinal :: int
  NamedValue_Value :: Value

record QueryParameter =
  QueryParameter_Name :: string
  QueryParameter_Value :: Value

text \<open>
  The client library's \<^verbatim>\<open>bigquery.Query\<close> (the fields the driver sets) and
  \<^verbatim>\<open>bigquery.RowIterator\<close> (what a finished read holds: the result's schema and its
  rows).
\<close>

record Query =
  Q :: string
  DefaultDatasetID :: string
  Parameters :: "QueryParameter list"

record RowIterator =
  RowIterator_Schema :: Schema
  RowIterator_rows :: "Value list list"

text \<open>
  \<^verbatim>\<open>bigQueryConnection\<close> is declared in a file that is not among the sources.  The
  statement uses three things of it, which are taken as given: the method
  \<^verbatim>\<open>connection.query(text)\<close>, the configured data set, and the remote service behind
  \<^verbatim>\<open>query.Read\<close>.
\<close>

record bigQueryConnection =
  connection_query :: "string \<Rightarrow> error + Query"
  config_dataSet :: string
  remote_Read :: "Query \<Rightarrow> error + RowIterator"

record bigQueryStatement =
  connection :: bigQueryConnection
  query :: string

text \<open>
  Modelled from the spec: \<^verbatim>\<open>adaptor.GetSchemaAdaptor(ctx)\<close> is not among the sources.
  ``Schema-adaptor capability: obtained from the caller's execution context''; the context
  carries one or none.
\<close>

record Context =
  Context_schemaAdaptor :: "SchemaAdaptor option"

definition GetSchemaAdaptor :: "Context \<Rightarrow> SchemaAdaptor option" where
  "GetSchemaAdaptor ctx = Context_schemaAdaptor ctx"

text \<open>
  Modelled from the spec: \<^verbatim>\<open>createSourceFromColumn\<close>,
  \<^verbatim>\<open>createSourceFromRowIterator\<close> and the cursor \<^verbatim>\<open>bigQueryRows\<close> built on them
  are not among the sources.  A row source is either in-memory (a schema and the captured
  rows) or remote-cursor-backed (the iterator of a finished read and the capability its
  schema is built with).
\<close>

datatype bigQuerySource =
    createSourceFromColumn bigQueryColumns "Value list"
  | createSourceFromRowIterator RowIterator "SchemaAdaptor option"

record bigQueryRows =
  source :: bigQuerySource

text \<open>The remote calls a statement makes are collected in a log.\<close>

datatype remote_call = Read Query

text \<open>
  \<^verbatim>\<open>buildParameterFromNamedValue\<close>, \<^verbatim>\<open>buildParameter\<close>, \<^verbatim>\<open>buildParameters\<close>,
  \<^verbatim>\<open>convertParameters\<close> and \<^verbatim>\<open>buildQuery\<close> (statement.go:147-210).
\<close>

definition buildParameterFromNamedValue ::
  "string \<Rightarrow> Value \<Rightarrow> QueryParameter list \<Rightarrow> QueryParameter list" where
  "buildParameterFromNamedValue name v parameters =
     (if name = []
      then parameters @ [\<lparr>QueryParameter_Name = [], QueryParameter_Value = v\<rparr>]
      else parameters @ [\<lparr>QueryParameter_Name = name, QueryParameter_Value = v\<rparr>])"

definition buildParameter :: "Value \<Rightarrow> QueryParameter list \<Rightarrow> QueryParameter list" where
  "buildParameter arg parameters =
     (if is_NamedValue arg
      then buildParameterFromNamedValue (boxed_Name arg) (boxed_Value arg) parameters
      else parameters @ [\<lparr>QueryParameter_Name = [], QueryParameter_Value = arg\<rparr>])"

definition buildParameters :: "Value list \<Rightarrow> QueryParameter list" where
  "buildParameters args =
     (if args = [] then []
      else foldl (\<lambda>parameters arg. buildParameter arg parameters) [] args)"

definition convertParameters :: "NamedValue list \<Rightarrow> Value list" where
  "convertParameters args =
     map (\<lambda>arg. VNamedValue (NamedValue_Name arg) (Ordinal arg) (NamedValue_Value arg)) args"

definition buildQuery :: "bigQueryStatement \<Rightarrow> Value list \<Rightarrow> error + Query" where
  "buildQuery statement args =
     (case connection_query (connection statement) (query statement) of
        Inl err \<Rightarrow> Inl err
      | Inr q \<Rightarrow>
          Inr (q\<lparr>DefaultDatasetID := config_dataSet (connection statement),
                 Parameters := buildParameters args\<rparr>))"

text \<open>
  \<^verbatim>\<open>bigQueryStatement.QueryContext\<close> (statement.go:53).  The constant
  \<^verbatim>\<open>adaptor.RerouteQuery\<close> is not among the sources and is the first argument.  The
  debug logging has no part in the result and is left out.  The result is the method's
  result together with the log of remote calls made.
\<close>

definition QueryContext ::
  "string \<Rightarrow> bigQueryStatement \<Rightarrow> Context \<Rightarrow> NamedValue list \<Rightarrow>
   (error + bigQueryRows) \<times> remote_call list" where
  "QueryContext RerouteQuery statement ctx args =
     (if query statement = RerouteQuery then
        (if length args < 1 then
           (Inl (errors_New ''expected a rerouting argument''), [])
         else if \<not> is_bigQueryReroutedColumn (NamedValue_Value (args ! 0)) then
           (Inl (errors_New ''expected a rerouting argument with rows''), [])
         else
           (let column = NamedValue_Value (args ! 0);
                schemaAdaptor = GetSchemaAdaptor ctx
            in if schemaAdaptor = None then
                 (Inl (errors_New ''expected a rerouting schema adaptor''), [])
               else
                 (let schema = createBigQuerySchema (rerouted_schema column) schemaAdaptor
                  in (Inr \<lparr>source = createSourceFromColumn schema (rerouted_values column)\<rparr>,
                      []))))
      else
        (case buildQuery statement (convertParameters args) of
           Inl err \<Rightarrow> (Inl err, [])
         | Inr q \<Rightarrow>
             (case remote_Read (connection statement) q of
                Inl err \<Rightarrow> (Inl err, [Read q])
              | Inr rowIterator \<Rightarrow>
                  (Inr \<lparr>source = createSourceFromRowIterator rowIterator (GetSchemaAdaptor ctx)\<rparr>,
                   [Read q]))))"

text \<open>The spec's names for the three errors of the reroute branch.\<close>

definition MissingReroutingArgument :: error where
  "MissingReroutingArgument = errors_New ''expected a rerouting argument''"

definition InvalidReroutingArgument :: error where
  "InvalidReroutingArgument = errors_New ''expected a rerouting argument with rows''"

definition MissingSchemaAdaptor :: error where
  "MissingSchemaAdaptor = errors_New ''expected a rerouting schema adaptor''"

text \<open>
  Modelled from the spec: the cursor's operations (\<^verbatim>\<open>bigQueryRows.Columns\<close> and
  \<^verbatim>\<open>Next\<close> with the two sources' \<^verbatim>\<open>GetSchema\<close> and \<^verbatim>\<open>Next\<close>) are not
  among the sources.  The cursor ``report[s the] column name list matching the active
  Schema''; a row is ``an ordered sequence of RawValue''; its ``cells still pass through the
  Value Converter on read'', cell \<open>i\<close> under column \<open>i\<close>; a conversion error ``aborts the
  row currently being converted''.  What a captured element that is no sequence reads as,
  the spec does not say: \<open>readRow\<close> answers \<open>None\<close> there.
\<close>

definition GetSchema :: "bigQuerySource \<Rightarrow> bigQueryColumns" where
  "GetSchema src =
     (case src of
        createSourceFromColumn schema vs \<Rightarrow> schema
      | createSourceFromRowIterator it schemaAdaptor \<Rightarrow>
          createBigQuerySchema (RowIterator_Schema it) schemaAdaptor)"

definition pendingRows :: "bigQuerySource \<Rightarrow> Value list" where
  "pendingRows src =
     (case src of
        createSourceFromColumn schema vs \<Rightarrow> vs
      | createSourceFromRowIterator it schemaAdaptor \<Rightarrow> map VSlice (RowIterator_rows it))"

definition Columns :: "bigQueryRows \<Rightarrow> string list" where
  "Columns rows = ColumnNames (GetSchema (source rows))"

fun convertCells ::
  "time_Time \<Rightarrow> bigQueryColumns \<Rightarrow> int \<Rightarrow> Value list \<Rightarrow> error + Value list" where
  "convertCells now schema i [] = Inr []"
| "convertCells now schema i (c # cs) =
     (case ConvertColumnValue now schema i c of
        (v, Some err) \<Rightarrow> Inl err
      | (v, None) \<Rightarrow>
          (case convertCells now schema (i + 1) cs of
             Inl err \<Rightarrow> Inl err
           | Inr vs \<Rightarrow> Inr (v # vs)))"

definition readRow :: "time_Time \<Rightarrow> bigQueryColumns \<Rightarrow> Value \<Rightarrow> (error + Value list) option" where
  "readRow now schema row =
     (if is_slice row then Some (convertCells now schema 0 (slice row)) else None)"

definition readAll :: "time_Time \<Rightarrow> bigQueryRows \<Rightarrow> (error + Value list) option list" where
  "readAll now rows =
     map (readRow now (GetSchema (source rows))) (pendingRows (source rows))"

section \<open>Vocabulary of the properties\<close>

text \<open>
  The years \<^verbatim>\<open>time.Date\<close> is shown below to handle without wrap-around: those of
  magnitude at most \<open>2.9 * 10^11\<close>.  (The second count wraps a little further out, below
  the year \<open>- 292277022399\<close> and in the course of the year \<open>292277026854\<close>.)
\<close>

definition within_time_range :: "int \<Rightarrow> bool" where
  "within_time_range x = (- 290000000000 \<le> x \<and> x \<le> 290000000000)"

text \<open>
  A civil date names a day of the calendar, and a civil time a moment of the day, when the
  fields are in their usual ranges.  (The library's \<^verbatim>\<open>IsValid\<close> methods say the same
  through \<^verbatim>\<open>time.Date\<close>.)
\<close>

definition Date_IsValid :: "civil_Date \<Rightarrow> bool" where
  "Date_IsValid d =
     (1 \<le> Month d \<and> Month d \<le> 12 \<and> 1 \<le> Day d \<and> Day d \<le> daysIn (Month d) (Year d))"

definition Time_IsValid :: "civil_Time \<Rightarrow> bool" where
  "Time_IsValid t =
     (0 \<le> Hour t \<and> Hour t < 24 \<and> 0 \<le> Minute t \<and> Minute t < 60 \<and>
      0 \<le> Second t \<and> Second t < 60 \<and> 0 \<le> Nanosecond t \<and> Nanosecond t < 1000000000)"

definition DateTime_IsValid :: "civil_DateTime \<Rightarrow> bool" where
  "DateTime_IsValid dt = (Date_IsValid (Date dt) \<and> Time_IsValid (Time dt))"

text \<open>
  The temporal stage matches when the column's tag and the value's dynamic type agree: the
  three guards of \<^verbatim>\<open>ConvertValue\<close> that end in \<^verbatim>\<open>return converted, nil\<close>.
\<close>

definition coerced :: "bigQueryColumn \<Rightarrow> Value \<Rightarrow> bool" where
  "coerced column v =
     (FieldType column = DateFieldType \<and> is_civil_Date v \<or>
      FieldType column = TimeFieldType \<and> is_civil_Time v \<or>
      FieldType column = DateTimeFieldType \<and> is_civil_DateTime v)"

section \<open>Sample inputs\<close>

text \<open>Two readings of the clock, a day apart.\<close>

definition clock_May_17 :: time_Time where
  "clock_May_17 = \<lparr>year = 2024, month = 5, day = 17, hour = 9, minute = 30, second = 0,
                    nanosecond = 0, location = UTC\<rparr>"

definition clock_May_18 :: time_Time where
  "clock_May_18 = \<lparr>year = 2024, month = 5, day = 18, hour = 9, minute = 30, second = 0,
                    nanosecond = 0, location = UTC\<rparr>"

text \<open>An adaptor that rejects every value, and a capability that knows no column.\<close>

fun rejectValue :: "Value \<Rightarrow> Value \<times> error option" where
  "rejectValue v = (VNil, Some (errors_New ''rejected''))"

definition rejecting :: SchemaColumnAdaptor where
  "rejecting = \<lparr>AdaptValue = rejectValue\<rparr>"

fun noColumnAdaptor :: "string \<Rightarrow> SchemaColumnAdaptor option" where
  "noColumnAdaptor name = None"

definition emptyCapability :: SchemaAdaptor where
  "emptyCapability = \<lparr>GetColumnAdaptor = noColumnAdaptor\<rparr>"

text \<open>The nested schema of the spec's end-to-end example: one column \<open>tag\<close>.\<close>

definition tagSchema :: Schema where
  "tagSchema = [FieldSchema ''tag'' ''STRING'' []]"

text \<open>
  A statement whose text is the reroute sentinel (here the string \<open>REROUTE\<close>), on a
  connection that refuses every remote operation, and two contexts.
\<close>

fun refuseQuery :: "string \<Rightarrow> error + Query" where
  "refuseQuery text = Inl (errors_New ''no connection'')"

fun refuseRead :: "Query \<Rightarrow> error + RowIterator" where
  "refuseRead q = Inl (errors_New ''no connection'')"

definition rerouteStatement :: bigQueryStatement where
  "rerouteStatement =
     \<lparr>connection = \<lparr>connection_query = refuseQuery, config_dataSet = ''ds'',
                     remote_Read = refuseRead\<rparr>,
      query = ''REROUTE''\<rparr>"

definition contextWithCapability :: Context where
  "contextWithCapability = \<lparr>Context_schemaAdaptor = Some emptyCapability\<rparr>"

definition contextWithoutCapability :: Context where
  "contextWithoutCapability = \<lparr>Context_schemaAdaptor = None\<rparr>"

text \<open>The token of the spec's end-to-end example, as a bind argument.\<close>

definition tagsToken :: Value where
  "tagsToken = VRerouted [VSlice [VString ''x''], VSlice [VString ''y'']] tagSchema"

definition tagsArgument :: NamedValue where
  "tagsArgument = \<lparr>NamedValue_Name = [], Ordinal = 1, NamedValue_Value = tagsToken\<rparr>"

definition plainArgument :: NamedValue where
  "plainArgument = \<lparr>NamedValue_Name = [], Ordinal = 2, NamedValue_Value = VInt 7\<rparr>"

section \<open>Auxiliary facts\<close>

text \<open>
  The arithmetic of \<^verbatim>\<open>time.Date\<close> gives back the fields put in, for every date of
  the calendar with a year of magnitude at most \<open>2.9 * 10^11\<close>: the day count is
  decomposed into cycles of 400, 100, 4 and 1 years exactly as it was composed
  (\<open>days_to_date\<close>), the day of the year gives back month and day
  (\<open>yday_to_date_month\<close>), and no 64-bit quantity wraps (\<open>time_Date_in_range\<close>).
\<close>

lemma div_unique_pos:
  fixes b q r :: int
  shows "0 \<le> r \<Longrightarrow> r < b \<Longrightarrow> (b * q + r) div b = q"
  by (simp add: div_pos_pos_trivial)

lemma year_digits:
  fixes Y :: int
  assumes "0 \<le> Y"
  defines "q \<equiv> Y div 400" and "a \<equiv> (Y mod 400) div 100" and "b \<equiv> (Y mod 100) div 4"
    and "c \<equiv> Y mod 4"
  shows "0 \<le> q" "0 \<le> a" "a \<le> 3" "0 \<le> b" "b \<le> 24" "0 \<le> c" "c \<le> 3"
    "Y = 400 * q + 100 * a + 4 * b + c" "Y mod 100 = 4 * b + c"
proof -
  show "0 \<le> q"
    using assms(1) by (simp add: q_def)
  have r: "0 \<le> Y mod 400" "Y mod 400 < 400"
    by simp_all
  have r2: "0 \<le> Y mod 100" "Y mod 100 < 100"
    by simp_all
  show "0 \<le> a"
    using r by (simp add: a_def)
  show "a \<le> 3"
    unfolding a_def using r(2) zdiv_mono1 [of "Y mod 400" 399 100] by simp
  show "0 \<le> b"
    using r2 by (simp add: b_def)
  show "b \<le> 24"
    unfolding b_def using r2(2) zdiv_mono1 [of "Y mod 100" 99 4] by simp
  show "0 \<le> c" "c \<le> 3"
    by (simp_all add: c_def)
  have 1: "Y = 400 * q + Y mod 400"
    by (simp add: q_def)
  have "(Y mod 400) mod 100 = Y mod 100"
    by (simp add: mod_mod_cancel)
  then have 2: "Y mod 400 = 100 * a + Y mod 100"
    unfolding a_def using mult_div_mod_eq [of 100 "Y mod 400"] by simp
  have "(Y mod 100) mod 4 = Y mod 4"
    by (simp add: mod_mod_cancel)
  then show 3: "Y mod 100 = 4 * b + c"
    unfolding b_def c_def using mult_div_mod_eq [of 4 "Y mod 100"] by simp
  show "Y = 400 * q + 100 * a + 4 * b + c"
    using 1 2 3 by linarith
qed

lemma days_to_date:
  fixes q a b c yd :: int
  assumes "0 \<le> q" "0 \<le> a" "a \<le> 3" "0 \<le> b" "b \<le> 24" "0 \<le> c" "c \<le> 3"
    and "0 \<le> yd" "yd \<le> 365"
    and l4: "yd = 365 \<longrightarrow> c = 3"
    and l100: "yd = 365 \<and> b = 24 \<longrightarrow> a = 3"
  defines "D \<equiv> 146097 * q + 36524 * a + 1461 * b + 365 * c + yd"
  defines "n400 \<equiv> D div 146097"
  defines "d1 \<equiv> D - 146097 * n400"
  defines "n100 \<equiv> d1 div 36524 - (d1 div 36524) div 4"
  defines "d2 \<equiv> d1 - 36524 * n100"
  defines "n4 \<equiv> d2 div 1461"
  defines "d3 \<equiv> d2 - 1461 * n4"
  defines "n1 \<equiv> d3 div 365 - (d3 div 365) div 4"
  shows "n400 = q" "n100 = a" "n4 = b" "n1 = c" "d3 - 365 * n1 = yd"
proof -
  let ?R1 = "36524 * a + 1461 * b + 365 * c + yd"
  have R1: "0 \<le> ?R1" "?R1 < 146097"
    using assms(1-9) by linarith+
  have "D = 146097 * q + ?R1"
    by (simp add: D_def)
  then show n400: "n400 = q"
    unfolding n400_def using div_unique_pos [OF R1, of q] by simp
  have d1: "d1 = ?R1"
    by (simp add: d1_def n400 D_def)
  let ?R2 = "1461 * b + 365 * c + yd"
  have R2: "0 \<le> ?R2" "?R2 \<le> 36524"
    using assms(1-9) by linarith+
  have k1: "d1 div 36524 - (d1 div 36524) div 4 = a"
  proof (cases "?R2 = 36524")
    case True
    then have "yd = 365" "b = 24"
      using assms(1-9) by linarith+
    then have "a = 3"
      using l100 by simp
    with True have "d1 = 36524 * 4 + 0"
      using d1 by linarith
    then have "d1 div 36524 = 4"
      by simp
    then show ?thesis
      using \<open>a = 3\<close> by simp
  next
    case False
    with R2 have "?R2 < 36524"
      by linarith
    from div_unique_pos [OF R2(1) this, of a] have "d1 div 36524 = a"
      using d1 by (simp add: algebra_simps)
    then show ?thesis
      using assms(2,3) by (simp add: div_pos_pos_trivial)
  qed
  then show n100: "n100 = a"
    by (simp add: n100_def)
  have d2: "d2 = ?R2"
    by (simp add: d2_def n100 d1)
  let ?R3 = "365 * c + yd"
  have R3: "0 \<le> ?R3" "?R3 < 1461"
    using assms(1-9) by linarith+
  from div_unique_pos [OF R3, of b] show n4: "n4 = b"
    unfolding n4_def d2 by (simp add: algebra_simps)
  have d3: "d3 = ?R3"
    by (simp add: d3_def n4 d2)
  have k2: "d3 div 365 - (d3 div 365) div 4 = c"
  proof (cases "yd = 365")
    case True
    then have "c = 3"
      using l4 by simp
    with True have "d3 = 365 * 4 + 0"
      using d3 by linarith
    then have "d3 div 365 = 4"
      by simp
    then show ?thesis
      using \<open>c = 3\<close> by simp
  next
    case False
    with assms(8,9) have "yd < 365"
      by linarith
    from div_unique_pos [OF assms(8) this, of c] have "d3 div 365 = c"
      using d3 by (simp add: algebra_simps)
    then show ?thesis
      using assms(6,7) by (simp add: div_pos_pos_trivial)
  qed
  then show n1: "n1 = c"
    by (simp add: n1_def)
  show "d3 - 365 * n1 = yd"
    by (simp add: n1 d3)
qed


lemma succ_mod_zero:
  fixes Y n :: int
  assumes "1 < n"
  shows "(Y + 1) mod n = 0 \<longleftrightarrow> Y mod n = n - 1"
proof
  assume "(Y + 1) mod n = 0"
  then obtain k where k: "Y + 1 = n * k"
    by (auto simp: mod_eq_0_iff_dvd)
  then have "Y = (n - 1) + n * (k - 1)"
    by (simp add: algebra_simps)
  then have "Y mod n = (n - 1) mod n"
    by (metis mod_mult_self2)
  moreover have "(n - 1) mod n = n - 1"
    using assms by (intro mod_pos_pos_trivial) auto
  ultimately show "Y mod n = n - 1"
    by (simp only:)
next
  assume a: "Y mod n = n - 1"
  have "Y = n * (Y div n) + Y mod n"
    by simp
  then have "Y + 1 = n * (Y div n + 1)"
    using a by (simp add: algebra_simps)
  then show "(Y + 1) mod n = 0"
    by (metis mod_mult_self1_is_0)
qed

lemma leap_facts:
  fixes Y :: int
  assumes "isLeap (Y - 292277022399)"
  shows "Y mod 4 = 3" "Y mod 100 = 99 \<Longrightarrow> Y mod 400 = 399"
proof -
  let ?y = "Y - 292277022399"
  have "?y = (Y + 1) + 400 * (- 730692556)"
    by simp
  then have m400: "?y mod 400 = (Y + 1) mod 400"
    by (metis mod_mult_self2)
  have m4: "?y mod 4 = (Y + 1) mod 4"
    using m400 mod_mod_cancel [of 4 400 ?y] mod_mod_cancel [of 4 400 "Y + 1"] by simp
  have m100: "?y mod 100 = (Y + 1) mod 100"
    using m400 mod_mod_cancel [of 100 400 ?y] mod_mod_cancel [of 100 400 "Y + 1"] by simp
  from assms have l: "(Y + 1) mod 4 = 0" "(Y + 1) mod 100 \<noteq> 0 \<or> (Y + 1) mod 400 = 0"
    unfolding isLeap_def m4 m100 m400 by simp_all
  from l(1) show "Y mod 4 = 3"
    using succ_mod_zero [of 4 Y] by simp
  assume "Y mod 100 = 99"
  then have "(Y + 1) mod 100 = 0"
    using succ_mod_zero [of 100 Y] by simp
  with l(2) have "(Y + 1) mod 400 = 0"
    by simp
  then show "Y mod 400 = 399"
    using succ_mod_zero [of 400 Y] by simp
qed

lemma yday_to_date:
  fixes y mon d :: int
  assumes "1 \<le> mon" "mon \<le> 12" "1 \<le> d" "d \<le> daysIn mon y"
  defines "yd \<equiv> daysBefore (mon - 1) + (if isLeap y \<and> mon \<ge> 3 then 1 else 0) + (d - 1)"
  shows "0 \<le> yd" "yd \<le> 365" "yd = 365 \<Longrightarrow> isLeap y"
proof -
  consider "mon = 1" | "mon = 2" | "mon = 3" | "mon = 4" | "mon = 5" | "mon = 6"
    | "mon = 7" | "mon = 8" | "mon = 9" | "mon = 10" | "mon = 11" | "mon = 12"
    using assms(1,2) by atomize_elim arith
  note months = this
  show "0 \<le> yd"
    using assms(3) by (cases rule: months) (simp_all add: yd_def daysBefore_def)
  show "yd \<le> 365"
    using assms(3,4) by (cases rule: months) (simp_all add: yd_def daysBefore_def daysIn_def split: if_splits)
  show "isLeap y" if "yd = 365"
    using assms(3,4) that by (cases rule: months) (simp_all add: yd_def daysBefore_def daysIn_def split: if_splits)
qed

lemma daysBefore_values:
  "daysBefore 0 = 0" "daysBefore 1 = 31" "daysBefore 2 = 59" "daysBefore 3 = 90"
  "daysBefore 4 = 120" "daysBefore 5 = 151" "daysBefore 6 = 181" "daysBefore 7 = 212"
  "daysBefore 8 = 243" "daysBefore 9 = 273" "daysBefore 10 = 304" "daysBefore 11 = 334"
  "daysBefore 12 = 365"
  by (simp_all add: daysBefore_def)

lemma month_of_day_aux:
  fixes k d m :: int
  assumes m: "31 * m \<le> dd" "dd < 31 * m + 31"
    and k: "0 \<le> k" "k \<le> 11"
    and dd: "daysBefore k \<le> dd" "dd < daysBefore (k + 1)"
  shows "(if dd \<ge> daysBefore (m + 1) then (y, m + 2, dd - daysBefore (m + 1) + 1)
          else (y, m + 1, dd - daysBefore m + 1)) = (y, k + 1, dd - daysBefore k + 1)"
proof -
  consider "k = 0" | "k = 1" | "k = 2" | "k = 3" | "k = 4" | "k = 5"
    | "k = 6" | "k = 7" | "k = 8" | "k = 9" | "k = 10" | "k = 11"
    using k by atomize_elim arith
  then show ?thesis
  proof cases
    case 1
    with dd have "m = 0" using m by (simp add: daysBefore_values)
    with 1 dd show ?thesis by (simp add: daysBefore_values)
  next
    case 2
    with dd have "m = 1" using m by (simp add: daysBefore_values)
    with 2 dd show ?thesis by (simp add: daysBefore_values)
  next
    case 3
    with dd have "m = 1 \<or> m = 2" using m by (simp add: daysBefore_values) arith
    with 3 dd m show ?thesis by (auto simp: daysBefore_values)
  next
    case 4
    with dd have "m = 2 \<or> m = 3" using m by (simp add: daysBefore_values) arith
    with 4 dd m show ?thesis by (auto simp: daysBefore_values)
  next
    case 5
    with dd have "m = 3 \<or> m = 4" using m by (simp add: daysBefore_values) arith
    with 5 dd m show ?thesis by (auto simp: daysBefore_values)
  next
    case 6
    with dd have "m = 4 \<or> m = 5" using m by (simp add: daysBefore_values) arith
    with 6 dd m show ?thesis by (auto simp: daysBefore_values)
  next
    case 7
    with dd have "m = 5 \<or> m = 6" using m by (simp add: daysBefore_values) arith
    with 7 dd m show ?thesis by (auto simp: daysBefore_values)
  next
    case 8
    with dd have "m = 6 \<or> m = 7" using m by (simp add: daysBefore_values) arith
    with 8 dd m show ?thesis by (auto simp: daysBefore_values)
  next
    case 9
    with dd have "m = 7 \<or> m = 8" using m by (simp add: daysBefore_values) arith
    with 9 dd m show ?thesis by (auto simp: daysBefore_values)
  next
    case 10
    with dd have "m = 8 \<or> m = 9" using m by (simp add: daysBefore_values) arith
    with 10 dd m show ?thesis by (auto simp: daysBefore_values)
  next
    case 11
    with dd have "m = 9 \<or> m = 10" using m by (simp add: daysBefore_values) arith
    with 11 dd m show ?thesis by (auto simp: daysBefore_values)
  next
    case 12
    with dd have "m = 10 \<or> m = 11" using m by (simp add: daysBefore_values) arith
    with 12 dd m show ?thesis by (auto simp: daysBefore_values)
  qed
qed


lemma yday_to_date_month:
  fixes y mon d :: int
  assumes "1 \<le> mon" "mon \<le> 12" "1 \<le> d" "d \<le> daysIn mon y"
  defines "yd \<equiv> daysBefore (mon - 1) + (if isLeap y \<and> mon \<ge> 3 then 1 else 0) + (d - 1)"
  shows "(if isLeap y \<and> yd = 31 + 29 - 1 then (y, 2, 29)
      else
        (let dd = (if isLeap y \<and> yd > 31 + 29 - 1 then yd - 1 else yd);
             m = dd div 31;
             e = daysBefore (m + 1)
         in if dd \<ge> e then (y, m + 2, dd - e + 1)
            else (y, m + 1, dd - daysBefore m + 1))) = (y, mon, d)"
proof -
  consider "mon = 1" | "mon = 2" | "mon = 3" | "mon = 4" | "mon = 5" | "mon = 6"
    | "mon = 7" | "mon = 8" | "mon = 9" | "mon = 10" | "mon = 11" | "mon = 12"
    using assms(1,2) by atomize_elim arith
  note months = this
  show ?thesis
  proof (cases "isLeap y \<and> yd = 31 + 29 - 1")
    case True
    then have "mon = 2 \<and> d = 29"
      using assms(3,4)
      by (cases rule: months) (simp_all add: yd_def daysBefore_values daysIn_def split: if_splits)
    with True show ?thesis
      by simp
  next
    case False
    define dd where "dd = (if isLeap y \<and> yd > 31 + 29 - 1 then yd - 1 else yd)"
    define k where "k = mon - 1"
    have dd: "dd = daysBefore k + d - 1"
      using assms(3,4) False
      by (cases rule: months)
         (auto simp: dd_def k_def yd_def daysBefore_values daysIn_def split: if_splits)
    have upper: "dd < daysBefore (k + 1)"
      using assms(3,4) False
      by (cases rule: months)
         (auto simp: dd_def k_def yd_def daysBefore_values daysIn_def split: if_splits)
    have lower: "daysBefore k \<le> dd"
      using dd assms(3) by simp
    have k: "0 \<le> k" "k \<le> 11"
      using assms(1,2) by (simp_all add: k_def)
    have "0 \<le> dd mod 31" "dd mod 31 < 31"
      by simp_all
    then have m: "31 * (dd div 31) \<le> dd" "dd < 31 * (dd div 31) + 31"
      using mult_div_mod_eq [of 31 dd] by linarith+
    from month_of_day_aux [OF m k lower upper, of y]
    have "(if dd \<ge> daysBefore (dd div 31 + 1)
           then (y, dd div 31 + 2, dd - daysBefore (dd div 31 + 1) + 1)
           else (y, dd div 31 + 1, dd - daysBefore (dd div 31) + 1)) = (y, mon, d)"
      by (simp add: dd k_def)
    then show ?thesis
      using False unfolding Let_def dd_def [symmetric] by auto
  qed
qed


lemma mod_unique_pos:
  fixes b q r :: int
  shows "0 \<le> r \<Longrightarrow> r < b \<Longrightarrow> (b * q + r) mod b = r"
  by (simp add: mod_pos_pos_trivial)

lemma u64_id: "0 \<le> x \<Longrightarrow> x < 18446744073709551616 \<Longrightarrow> u64 x = x"
  by (simp add: u64_def mod_pos_pos_trivial)

lemma i64_id: "- 9223372036854775808 \<le> x \<Longrightarrow> x < 9223372036854775808 \<Longrightarrow> i64 x = x"
  by (simp add: i64_def mod_pos_pos_trivial)

lemma norm_in_range: "0 \<le> lo \<Longrightarrow> lo < base \<Longrightarrow> norm hi lo base = (hi, lo)"
  by (simp add: norm_def)

lemma daysSinceEpoch_in_range:
  fixes y :: int
  defines "Y \<equiv> y + 292277022399"
  assumes "0 \<le> Y" "Y < 600000000000"
  shows "daysSinceEpoch y =
           146097 * (Y div 400) + 36524 * ((Y mod 400) div 100) + 1461 * ((Y mod 100) div 4) +
           365 * (Y mod 4)"
    and "4 * daysSinceEpoch y \<le> 1461 * Y" and "0 \<le> daysSinceEpoch y"
proof -
  note dg = year_digits [OF assms(2)]
  let ?S = "146097 * (Y div 400) + 36524 * ((Y mod 400) div 100) + 1461 * ((Y mod 100) div 4) +
           365 * (Y mod 4)"
  have y0: "u64 (y - absoluteZeroYear) = Y"
    using assms(2,3) by (simp add: absoluteZeroYear_def Y_def u64_id)
  have m1: "Y - 400 * (Y div 400) = Y mod 400"
    by (simp add: minus_mult_div_eq_mod)
  have m2: "Y mod 400 - 100 * (Y mod 400 div 100) = Y mod 100"
    by (simp add: minus_mult_div_eq_mod mod_mod_cancel)
  have m3: "Y mod 100 - 4 * (Y mod 100 div 4) = Y mod 4"
    by (simp add: minus_mult_div_eq_mod mod_mod_cancel)
  define q a b c where "q = Y div 400" and "a = Y mod 400 div 100" and "b = Y mod 100 div 4"
    and "c = Y mod 4"
  note dg' = dg [folded q_def a_def b_def c_def]
  have diff: "1461 * (400 * q + 100 * a + 4 * b + c) -
              4 * (146097 * q + 36524 * a + 1461 * b + 365 * c) = 12 * q + 4 * a + c"
    by simp
  have "0 \<le> 12 * q + 4 * a + c"
    using dg'(1,2,6) by linarith
  with diff have "4 * (146097 * q + 36524 * a + 1461 * b + 365 * c) \<le>
                  1461 * (400 * q + 100 * a + 4 * b + c)"
    by linarith
  moreover have "0 \<le> 146097 * q + 36524 * a + 1461 * b + 365 * c"
    using dg'(1-7) by linarith
  ultimately have S: "0 \<le> ?S" "4 * ?S \<le> 1461 * Y"
    using dg'(8) unfolding q_def a_def b_def c_def by simp_all
  then have "?S < 18446744073709551616"
    using assms(3) by linarith
  then have "u64 ?S = ?S"
    using S(1) by (simp add: u64_id)
  then show eq: "daysSinceEpoch y = ?S"
    unfolding daysSinceEpoch_def Let_def y0 m1 m2 m3 by simp
  show "4 * daysSinceEpoch y \<le> 1461 * Y" "0 \<le> daysSinceEpoch y"
    using S by (simp_all only: eq)
qed


lemma absDate_in_range:
  fixes y mon d clock :: int
  defines "Y \<equiv> y + 292277022399"
  defines "yd \<equiv> daysBefore (mon - 1) + (if isLeap y \<and> mon \<ge> 3 then 1 else 0) + (d - 1)"
  assumes Y: "0 \<le> Y" "Y < 600000000000"
    and date: "1 \<le> mon" "mon \<le> 12" "1 \<le> d" "d \<le> daysIn mon y"
    and clock: "0 \<le> clock" "clock < 86400"
  shows "absDate ((daysSinceEpoch y + yd) * 86400 + clock) = (y, mon, d)"
proof -
  define q a b c where "q = Y div 400" and "a = Y mod 400 div 100" and "b = Y mod 100 div 4"
    and "c = Y mod 4"
  note dg = year_digits [OF Y(1), folded q_def a_def b_def c_def]
  note yday = yday_to_date [OF date, folded yd_def]
  have y: "y = Y - 292277022399"
    by (simp add: Y_def)
  have l4': "c = 3" if "yd = 365"
    using leap_facts(1) [of Y] yday(3) [OF that] by (simp add: y c_def)
  have l100': "a = 3" if "yd = 365" "b = 24"
  proof -
    have "Y mod 100 = 99"
      using dg(9) l4' [OF that(1)] that(2) by simp
    then have "Y mod 400 = 399"
      using leap_facts(2) [of Y] yday(3) [OF that(1)] by (simp add: y)
    then show ?thesis
      by (simp add: a_def)
  qed
  have l4: "yd = 365 \<longrightarrow> c = 3"
    using l4' by blast
  have l100: "yd = 365 \<and> b = 24 \<longrightarrow> a = 3"
    using l100' by blast
  define D where "D = 146097 * q + 36524 * a + 1461 * b + 365 * c + yd"
  have dse: "daysSinceEpoch y + yd = D"
    using daysSinceEpoch_in_range(1) [of y] Y
    by (simp add: D_def Y_def q_def a_def b_def c_def)
  have d0: "(D * 86400 + clock) div 86400 = D"
    using div_unique_pos [OF clock, of D] by (simp add: mult.commute)
  note dd = days_to_date [OF dg(1-7) yday(1,2) l4 l100]
  have year: "i64 (u64 (400 * q + 100 * a + 4 * b + c) + absoluteZeroYear) = y"
    using Y dg(8) by (simp add: u64_id i64_id absoluteZeroYear_def y)
  note e1 = dd(1)
  note e2 = dd(2) [unfolded e1]
  note e3 = dd(3) [unfolded e1 e2]
  note e4 = dd(4) [unfolded e1 e2 e3]
  note e5 = dd(5) [unfolded e1 e2 e3 e4]
  have "absDate (D * 86400 + clock) =
          (if isLeap y \<and> yd = 31 + 29 - 1 then (y, 2, 29)
           else if (if isLeap y \<and> yd > 31 + 29 - 1 then yd - 1 else yd) \<ge>
                   daysBefore ((if isLeap y \<and> yd > 31 + 29 - 1 then yd - 1 else yd) div 31 + 1)
                then (y, (if isLeap y \<and> yd > 31 + 29 - 1 then yd - 1 else yd) div 31 + 2,
                      (if isLeap y \<and> yd > 31 + 29 - 1 then yd - 1 else yd) -
                      daysBefore ((if isLeap y \<and> yd > 31 + 29 - 1 then yd - 1 else yd) div 31 + 1) + 1)
                else (y, (if isLeap y \<and> yd > 31 + 29 - 1 then yd - 1 else yd) div 31 + 1,
                      (if isLeap y \<and> yd > 31 + 29 - 1 then yd - 1 else yd) -
                      daysBefore ((if isLeap y \<and> yd > 31 + 29 - 1 then yd - 1 else yd) div 31) + 1))"
    unfolding absDate_def Let_def d0 unfolding D_def e1 e2 e3 e4 e5 year ..
  also have "\<dots> = (y, mon, d)"
    using yday_to_date_month [OF date, folded yd_def, unfolded Let_def] .
  finally show ?thesis
    unfolding dse .
qed


lemma time_Date_in_range:
  assumes "within_time_range y"
    and "1 \<le> mon" "mon \<le> 12" "1 \<le> d" "d \<le> daysIn mon y"
    and "0 \<le> h" "h < 24" "0 \<le> mi" "mi < 60" "0 \<le> s" "s < 60" "0 \<le> ns" "ns < 1000000000"
  shows "time_Date y mon d h mi s ns loc =
         \<lparr>year = y, month = mon, day = d, hour = h, minute = mi, second = s,
          nanosecond = ns, location = loc\<rparr>"
proof -
  define Y where "Y = y + 292277022399"
  have Y: "0 \<le> Y" "Y < 600000000000" "Y \<le> 582277022399"
    using assms(1) by (simp_all add: Y_def within_time_range_def)
  define yd where
    "yd = daysBefore (mon - 1) + (if isLeap y \<and> mon \<ge> 3 then 1 else 0) + (d - 1)"
  note yday = yday_to_date [OF assms(2-5), folded yd_def]
  define clock where "clock = h * 3600 + mi * 60 + s"
  have clock: "0 \<le> clock" "clock < 86400"
    using assms(6-11) by (simp_all add: clock_def)
  have n1: "norm y (i64 (mon - 1)) 12 = (y, mon - 1)"
    using assms(2,3) by (simp add: i64_id norm_in_range)
  have n2: "norm s ns 1000000000 = (s, ns)" "norm mi s 60 = (mi, s)" "norm h mi 60 = (h, mi)"
    "norm d h 24 = (d, h)"
    using assms by (simp_all add: norm_in_range)
  have dse: "4 * daysSinceEpoch y \<le> 1461 * Y" "0 \<le> daysSinceEpoch y"
    using daysSinceEpoch_in_range(2,3) [of y] Y by (simp_all add: Y_def)
  let ?D = "daysSinceEpoch y + yd"
  have D: "0 \<le> ?D" "?D \<le> 212676682431600"
    using dse yday(1,2) Y(3) by linarith+
  have days: "u64 (daysSinceEpoch y + daysBefore (mon - 1) +
                   (if isLeap y \<and> mon - 1 + 1 \<ge> 3 then 1 else 0) + (d - 1)) = ?D"
    using D by (simp add: yd_def u64_id)
  have a: "u64 (?D * 86400 + (h * 3600 + mi * 60 + s)) = ?D * 86400 + clock"
    using D clock by (simp add: clock_def [symmetric] u64_id)
  have date: "absDate (?D * 86400 + clock) = (y, mon, d)"
    using absDate_in_range [OF _ _ assms(2-5) clock] Y by (simp add: Y_def yd_def)
  have cm: "(?D * 86400 + clock) mod 86400 = clock"
    using mod_unique_pos [OF clock, of ?D] by (simp add: mult.commute)
  have "0 \<le> mi * 60 + s" "mi * 60 + s < 3600"
    using assms(8-11) by linarith+
  then have ch: "clock div 3600 = h" "clock mod 3600 = mi * 60 + s"
    using div_unique_pos [of "mi * 60 + s" 3600 h] mod_unique_pos [of "mi * 60 + s" 3600 h]
    by (simp_all add: clock_def algebra_simps)
  have cmi: "(mi * 60 + s) div 60 = mi"
    using div_unique_pos [OF assms(10,11), of mi] by (simp add: algebra_simps)
  have "clock = 60 * (h * 60 + mi) + s"
    by (simp add: clock_def)
  then have cs: "clock mod 60 = s"
    using mod_unique_pos [OF assms(10,11), of "h * 60 + mi"] by simp
  show ?thesis
    unfolding time_Date_def n1 n2 Let_def prod.case days a date cm ch cmi cs by simp
qed

lemma temporal_tags_distinct:
  "DateFieldType \<noteq> TimeFieldType" "DateFieldType \<noteq> DateTimeFieldType"
  "TimeFieldType \<noteq> DateTimeFieldType"
  by (simp_all add: DateFieldType_def TimeFieldType_def DateTimeFieldType_def)

lemma ConvertValue_not_coerced:
  assumes "\<not> coerced column v"
  shows "ConvertValue now column v =
     (if length (Schema column) = 0 then (v, None)
      else
        (let w = (if is_slice v then
                    (let vs = slice v;
                         vs' = (if length vs > 0 \<and> \<not> is_slice (vs ! 0)
                                then [VSlice vs] else vs)
                     in VRerouted vs' (Schema column))
                  else v)
         in case Adaptor column of
              Some columnAdaptor \<Rightarrow> AdaptValue columnAdaptor w
            | None \<Rightarrow> (w, None)))"
proof -
  have a: "(FieldType column = DateFieldType \<and> is_civil_Date v) = False"
    and b: "(FieldType column = TimeFieldType \<and> is_civil_Time v) = False"
    and c: "(FieldType column = DateTimeFieldType \<and> is_civil_DateTime v) = False"
    using assms by (auto simp: coerced_def)
  show ?thesis
    unfolding ConvertValue_def a b c by (simp only: if_False)
qed

lemma ConvertValue_part_000_not_coerced:
  assumes "\<not> coerced column v"
  shows "ConvertValue_part_000 column v = ConvertValue now column v"
proof -
  have a: "(FieldType column = DateFieldType \<and> is_civil_Date v) = False"
    and b: "(FieldType column = TimeFieldType \<and> is_civil_Time v) = False"
    and c: "(FieldType column = DateTimeFieldType \<and> is_civil_DateTime v) = False"
    and a': "(FieldType column = DateFieldType \<and> v \<noteq> VNil \<and> is_civil_Date v) = False"
    and b': "(FieldType column = TimeFieldType \<and> v \<noteq> VNil \<and> is_civil_Time v) = False"
    and c': "(FieldType column = DateTimeFieldType \<and> v \<noteq> VNil \<and> is_civil_DateTime v) = False"
    using assms by (auto simp: coerced_def)
  show ?thesis
    unfolding ConvertValue_def ConvertValue_part_000_def a b c a' b' c'
    by (simp only: if_False)
qed

lemma coerced_no_error:
  assumes "coerced column v"
  shows "snd (ConvertValue now column v) = None" "snd (ConvertValue_part_000 column v) = None"
  using assms temporal_tags_distinct
  by (auto simp: coerced_def ConvertValue_def ConvertValue_part_000_def Let_def)

lemma not_coerced_retag:
  "\<not> coerced (column\<lparr>FieldType := ''RECORD''\<rparr>) v"
  by (simp add: coerced_def DateFieldType_def TimeFieldType_def DateTimeFieldType_def)

lemma createBigQuerySchema_loop_names:
  "names (createBigQuerySchema_loop sa schema ns cols) = ns @ map FieldSchema_Name schema"
  by (induction schema arbitrary: ns cols) (simp_all add: Let_def)

lemma createBigQuerySchema_loop_columns:
  "columns (createBigQuerySchema_loop sa schema ns cols) =
   cols @ map (\<lambda>f. \<lparr>Name = FieldSchema_Name f, Schema = FieldSchema_Schema f,
                     Adaptor = (case sa of None \<Rightarrow> None
                                | Some a \<Rightarrow> GetColumnAdaptor a (FieldSchema_Name f)),
                     FieldType = FieldSchema_Type f\<rparr>) schema"
  by (induction schema arbitrary: ns cols) (simp_all add: Let_def)

lemma createBigQuerySchema_names:
  "ColumnNames (createBigQuerySchema schema sa) = map FieldSchema_Name schema"
  by (simp add: ColumnNames_def createBigQuerySchema_def createBigQuerySchema_loop_names)

lemma createBigQuerySchema_columns:
  "columns (createBigQuerySchema schema sa) =
   map (\<lambda>f. \<lparr>Name = FieldSchema_Name f, Schema = FieldSchema_Schema f,
              Adaptor = (case sa of None \<Rightarrow> None
                         | Some a \<Rightarrow> GetColumnAdaptor a (FieldSchema_Name f)),
              FieldType = FieldSchema_Type f\<rparr>) schema"
  by (simp add: createBigQuerySchema_def createBigQuerySchema_loop_columns)

section \<open>Properties of the value converter\<close>

text \<open>
  C6.  For every schema and every raw value, \<open>ConvertColumnValue\<close> with a negative column
  index, or an index greater than or equal to the number of columns, returns the raw value
  unchanged with no error.
\<close>

theorem ConvertColumnValue_out_of_range:
  "index < 0 \<or> index \<ge> int (length (columns cs)) \<Longrightarrow>
   ConvertColumnValue now cs index v = (v, None)"
  by (auto simp: ConvertColumnValue_def)

theorem ConvertColumnValue_out_of_range_witness:
  "ConvertColumnValue (time_Date 2024 5 17 9 30 0 0 UTC)
     \<lparr>names = [''id''], columns = [\<lparr>Name = ''id'', Schema = [], Adaptor = None,
        FieldType = ''INTEGER''\<rparr>]\<rparr> (- 1) (VInt 7) = (VInt 7, None) \<and>
   ConvertColumnValue (time_Date 2024 5 17 9 30 0 0 UTC)
     \<lparr>names = [''id''], columns = [\<lparr>Name = ''id'', Schema = [], Adaptor = None,
        FieldType = ''INTEGER''\<rparr>]\<rparr> 1 (VInt 7) = (VInt 7, None)"
  using ConvertColumnValue_out_of_range [of "- 1" "\<lparr>names = [''id''], columns = [\<lparr>Name = ''id'',
          Schema = [], Adaptor = None, FieldType = ''INTEGER''\<rparr>]\<rparr>"
          "time_Date 2024 5 17 9 30 0 0 UTC" "VInt 7"]
        ConvertColumnValue_out_of_range [of 1 "\<lparr>names = [''id''], columns = [\<lparr>Name = ''id'',
          Schema = [], Adaptor = None, FieldType = ''INTEGER''\<rparr>]\<rparr>"
          "time_Date 2024 5 17 9 30 0 0 UTC" "VInt 7"]
  by simp

text \<open>
  C4 (amended).  For every column whose nested schema is empty and whose type tag is not a
  matched temporal case, \<open>ConvertValue\<close> returns the raw value unchanged with no error,
  whether or not an adaptor was resolved for the column: the adaptor is not invoked
  (columns.go:83 returns before the adaptor is looked at).  The later revision does the
  same.
\<close>

theorem ConvertValue_empty_schema_ignores_adaptor:
  "\<not> coerced column v \<Longrightarrow> Schema column = [] \<Longrightarrow>
   ConvertValue now column v = (v, None) \<and> ConvertValue_part_000 column v = (v, None)"
  by (simp add: ConvertValue_part_000_not_coerced [where now = now] ConvertValue_not_coerced)

theorem ConvertValue_empty_schema_ignores_adaptor_witness:
  "ConvertValue clock_May_17
     \<lparr>Name = ''id'', Schema = [], Adaptor = Some rejecting, FieldType = ''STRING''\<rparr>
     (VString ''a'') = (VString ''a'', None)"
  using ConvertValue_empty_schema_ignores_adaptor
          [of "\<lparr>Name = ''id'', Schema = [], Adaptor = Some rejecting, FieldType = ''STRING''\<rparr>"
              "VString ''a''" clock_May_17]
  by (simp add: coerced_def DateFieldType_def TimeFieldType_def DateTimeFieldType_def)

text \<open>
  The claim as written fails: a STRING column with empty nested schema and the rejecting
  adaptor returns the raw string, not the adaptor's result.
\<close>

theorem ConvertValue_adaptor_not_invoked_counterexample:
  "Schema \<lparr>Name = ''id'', Schema = [], Adaptor = Some rejecting, FieldType = ''STRING''\<rparr> = [] \<and>
   \<not> coerced \<lparr>Name = ''id'', Schema = [], Adaptor = Some rejecting, FieldType = ''STRING''\<rparr>
        (VString ''a'') \<and>
   ConvertValue clock_May_17
     \<lparr>Name = ''id'', Schema = [], Adaptor = Some rejecting, FieldType = ''STRING''\<rparr>
     (VString ''a'') \<noteq> AdaptValue rejecting (VString ''a'')"
  by (simp add: ConvertValue_def coerced_def rejecting_def
        DateFieldType_def TimeFieldType_def DateTimeFieldType_def)

text \<open>
  C5.  For every column with a non-empty nested schema and no resolved adaptor: a non-empty
  sequence whose first element is itself a sequence is returned as a NestedToken holding the
  sequence unchanged and the column's nested schema; a non-empty sequence whose first
  element is not a sequence is returned as a NestedToken whose values are the one-element
  sequence holding the input.
\<close>

theorem ConvertValue_nested_token:
  "Schema column \<noteq> [] \<Longrightarrow> Adaptor column = None \<Longrightarrow> vs \<noteq> [] \<Longrightarrow>
   (is_slice (vs ! 0) \<longrightarrow>
      ConvertValue now column (VSlice vs) = (VRerouted vs (Schema column), None)) \<and>
   (\<not> is_slice (vs ! 0) \<longrightarrow>
      ConvertValue now column (VSlice vs) = (VRerouted [VSlice vs] (Schema column), None))"
  by (simp add: ConvertValue_def)

theorem ConvertValue_nested_token_witness:
  "ConvertValue clock_May_17
     \<lparr>Name = ''tags'', Schema = tagSchema, Adaptor = None, FieldType = ''RECORD''\<rparr>
     (VSlice [VSlice [VString ''a'', VString ''b''], VSlice [VString ''c'', VString ''d'']]) =
   (VRerouted [VSlice [VString ''a'', VString ''b''], VSlice [VString ''c'', VString ''d'']]
      tagSchema, None) \<and>
   ConvertValue clock_May_17
     \<lparr>Name = ''tags'', Schema = tagSchema, Adaptor = None, FieldType = ''RECORD''\<rparr>
     (VSlice [VString ''a'', VString ''b'']) =
   (VRerouted [VSlice [VString ''a'', VString ''b'']] tagSchema, None)"
  using ConvertValue_nested_token
          [of "\<lparr>Name = ''tags'', Schema = tagSchema, Adaptor = None, FieldType = ''RECORD''\<rparr>"
              "[VSlice [VString ''a'', VString ''b''], VSlice [VString ''c'', VString ''d'']]"
              clock_May_17]
        ConvertValue_nested_token
          [of "\<lparr>Name = ''tags'', Schema = tagSchema, Adaptor = None, FieldType = ''RECORD''\<rparr>"
              "[VString ''a'', VString ''b'']" clock_May_17]
  by (simp add: tagSchema_def)

text \<open>
  C10 (amended).  For every column with a non-empty nested schema and every raw value that
  the temporal stage does not match: if the raw value is not a sequence, no NestedToken is
  built; the raw value itself is the working value, passed to the resolved adaptor if there
  is one and otherwise returned unchanged with no error.  An empty sequence is captured in a
  NestedToken with empty values, not singleton-wrapped.
\<close>

theorem ConvertValue_nested_non_sequence:
  "Schema column \<noteq> [] \<Longrightarrow> \<not> coerced column v \<Longrightarrow>
   (\<not> is_slice v \<longrightarrow>
      ConvertValue now column v =
        (case Adaptor column of Some a \<Rightarrow> AdaptValue a v | None \<Rightarrow> (v, None))) \<and>
   ConvertValue now column (VSlice []) =
     (case Adaptor column of
        Some a \<Rightarrow> AdaptValue a (VRerouted [] (Schema column))
      | None \<Rightarrow> (VRerouted [] (Schema column), None))"
  by (simp add: ConvertValue_not_coerced) (simp add: ConvertValue_def Let_def)

theorem ConvertValue_nested_non_sequence_witness:
  "ConvertValue clock_May_17
     \<lparr>Name = ''tags'', Schema = tagSchema, Adaptor = None, FieldType = ''RECORD''\<rparr>
     (VInt 5) = (VInt 5, None) \<and>
   ConvertValue clock_May_17
     \<lparr>Name = ''tags'', Schema = tagSchema, Adaptor = None, FieldType = ''RECORD''\<rparr>
     (VSlice []) = (VRerouted [] tagSchema, None) \<and>
   ConvertValue clock_May_17
     \<lparr>Name = ''tags'', Schema = tagSchema, Adaptor = Some rejecting, FieldType = ''RECORD''\<rparr>
     (VInt 5) = (VNil, Some (errors_New ''rejected''))"
  using ConvertValue_nested_non_sequence
          [of "\<lparr>Name = ''tags'', Schema = tagSchema, Adaptor = None, FieldType = ''RECORD''\<rparr>"
              "VInt 5" clock_May_17]
        ConvertValue_nested_non_sequence
          [of "\<lparr>Name = ''tags'', Schema = tagSchema, Adaptor = Some rejecting,
                FieldType = ''RECORD''\<rparr>" "VInt 5" clock_May_17]
  by (simp add: tagSchema_def coerced_def rejecting_def
        DateFieldType_def TimeFieldType_def DateTimeFieldType_def)

text \<open>
  The claim as written fails where the temporal stage matches: under a column tagged DATE
  that carries a nested schema, a civil date is no sequence, yet it comes back as a
  timestamp and not unchanged.
\<close>

theorem ConvertValue_nested_non_sequence_counterexample:
  "Schema \<lparr>Name = ''d'', Schema = tagSchema, Adaptor = None, FieldType = DateFieldType\<rparr> \<noteq> [] \<and>
   \<not> is_slice (VCivilDate \<lparr>Year = 2024, Month = 5, Day = 17\<rparr>) \<and>
   ConvertValue clock_May_17
     \<lparr>Name = ''d'', Schema = tagSchema, Adaptor = None, FieldType = DateFieldType\<rparr>
     (VCivilDate \<lparr>Year = 2024, Month = 5, Day = 17\<rparr>) \<noteq>
   (VCivilDate \<lparr>Year = 2024, Month = 5, Day = 17\<rparr>, None)"
  by (simp add: ConvertValue_def tagSchema_def)

text \<open>
  C9.  Temporal coercion never returns an error.  For every column tagged DATE, TIME or
  DATETIME: where the stage matches, the error is nil; where it does not (the raw value is
  nil or not of the tag's civil type), the conversion is that of the same column without a
  temporal tag, on the same raw value: the remaining stages run on the original value, and
  an error can only be the adaptor's.  A nil value is never matched, and for a column with
  empty nested schema it is returned unchanged with no error.  Both revisions of
  \<open>ConvertValue\<close> behave so.
\<close>

theorem temporal_coercion_falls_through:
  "FieldType column \<in> {DateFieldType, TimeFieldType, DateTimeFieldType} \<Longrightarrow>
   (coerced column v \<longrightarrow>
      snd (ConvertValue now column v) = None \<and> snd (ConvertValue_part_000 column v) = None) \<and>
   (\<not> coerced column v \<longrightarrow>
      ConvertValue now column v = ConvertValue now (column\<lparr>FieldType := ''RECORD''\<rparr>) v \<and>
      ConvertValue_part_000 column v =
        ConvertValue_part_000 (column\<lparr>FieldType := ''RECORD''\<rparr>) v \<and>
      (Adaptor column = None \<longrightarrow>
         snd (ConvertValue now column v) = None \<and>
         snd (ConvertValue_part_000 column v) = None)) \<and>
   \<not> coerced column VNil \<and>
   (Schema column = [] \<longrightarrow>
      ConvertValue now column VNil = (VNil, None) \<and>
      ConvertValue_part_000 column VNil = (VNil, None))"
proof -
  have nil: "\<not> coerced column VNil"
    by (simp add: coerced_def)
  have retag: "ConvertValue now column v = ConvertValue now (column\<lparr>FieldType := ''RECORD''\<rparr>) v"
    if "\<not> coerced column v"
    using that not_coerced_retag [of column v]
    by (simp add: ConvertValue_not_coerced)
  have retag': "ConvertValue_part_000 column v =
        ConvertValue_part_000 (column\<lparr>FieldType := ''RECORD''\<rparr>) v"
    if "\<not> coerced column v"
    using that not_coerced_retag [of column v] retag [OF that]
    by (simp add: ConvertValue_part_000_not_coerced [where now = now])
  have noerr: "snd (ConvertValue now column v) = None \<and> snd (ConvertValue_part_000 column v) = None"
    if "\<not> coerced column v" "Adaptor column = None"
    using that
    by (simp add: ConvertValue_part_000_not_coerced [where now = now] ConvertValue_not_coerced Let_def)
  have nilres: "ConvertValue now column VNil = (VNil, None) \<and>
      ConvertValue_part_000 column VNil = (VNil, None)" if "Schema column = []"
    using that nil
    by (simp add: ConvertValue_part_000_not_coerced [where now = now] ConvertValue_not_coerced)
  show ?thesis
    using nil retag retag' noerr nilres coerced_no_error [of column v] by blast
qed

theorem temporal_coercion_falls_through_witness:
  "ConvertValue clock_May_17
     \<lparr>Name = ''d'', Schema = [], Adaptor = None, FieldType = DateFieldType\<rparr> VNil = (VNil, None) \<and>
   ConvertValue_part_000
     \<lparr>Name = ''d'', Schema = [], Adaptor = None, FieldType = DateFieldType\<rparr> VNil = (VNil, None) \<and>
   ConvertValue clock_May_17
     \<lparr>Name = ''d'', Schema = [], Adaptor = None, FieldType = DateFieldType\<rparr> (VString ''x'') =
   ConvertValue clock_May_17
     \<lparr>Name = ''d'', Schema = [], Adaptor = None, FieldType = ''RECORD''\<rparr> (VString ''x'')"
  using temporal_coercion_falls_through
          [of "\<lparr>Name = ''d'', Schema = [], Adaptor = None, FieldType = DateFieldType\<rparr>"
              "VString ''x''" clock_May_17]
  by (simp add: coerced_def)

text \<open>
  C7 (amended).  For every column tagged DATE and every civil date \<open>d\<close>, \<open>ConvertValue\<close>
  returns, with no error, the timestamp \<^verbatim>\<open>time.Date(d.Year, d.Month, d.Day, 0, 0, 0, 0, UTC)\<close>;
  when \<open>d\<close> is a date of the calendar and its year is of magnitude at most
  \<open>2.9 * 10^11\<close>, this is midnight UTC on \<open>d\<close>.  Converting the output again under the
  same column returns it unchanged when the column has an empty nested schema or no
  adaptor.
\<close>

theorem ConvertValue_DATE:
  "FieldType column = DateFieldType \<Longrightarrow>
   ConvertValue now column (VCivilDate d) =
     (VTime (time_Date (Year d) (Month d) (Day d) 0 0 0 0 UTC), None) \<and>
   (Date_IsValid d \<and> within_time_range (Year d) \<longrightarrow>
      time_Date (Year d) (Month d) (Day d) 0 0 0 0 UTC =
        \<lparr>year = Year d, month = Month d, day = Day d, hour = 0, minute = 0, second = 0,
         nanosecond = 0, location = UTC\<rparr>) \<and>
   (Schema column = [] \<or> Adaptor column = None \<longrightarrow>
      ConvertValue now column (fst (ConvertValue now column (VCivilDate d))) =
        ConvertValue now column (VCivilDate d))"
proof -
  assume tag: "FieldType column = DateFieldType"
  let ?t = "time_Date (Year d) (Month d) (Day d) 0 0 0 0 UTC"
  have first: "ConvertValue now column (VCivilDate d) = (VTime ?t, None)"
    using tag by (simp add: ConvertValue_def)
  have fields: "?t = \<lparr>year = Year d, month = Month d, day = Day d, hour = 0, minute = 0,
                      second = 0, nanosecond = 0, location = UTC\<rparr>"
    if "Date_IsValid d" "within_time_range (Year d)"
    using that by (simp add: Date_IsValid_def time_Date_in_range)
  have nc: "\<not> coerced column (VTime ?t)"
    by (simp add: coerced_def)
  have again: "ConvertValue now column (VTime ?t) = (VTime ?t, None)"
    if "Schema column = [] \<or> Adaptor column = None"
    using that by (auto simp: ConvertValue_not_coerced [OF nc])
  show ?thesis
    using first fields again by simp
qed

theorem ConvertValue_DATE_witness:
  "ConvertValue clock_May_17
     \<lparr>Name = ''born'', Schema = [], Adaptor = Some rejecting, FieldType = DateFieldType\<rparr>
     (VCivilDate \<lparr>Year = 2024, Month = 2, Day = 29\<rparr>) =
   (VTime \<lparr>year = 2024, month = 2, day = 29, hour = 0, minute = 0, second = 0,
           nanosecond = 0, location = UTC\<rparr>, None) \<and>
   ConvertValue clock_May_17
     \<lparr>Name = ''born'', Schema = [], Adaptor = Some rejecting, FieldType = DateFieldType\<rparr>
     (VTime \<lparr>year = 2024, month = 2, day = 29, hour = 0, minute = 0, second = 0,
            nanosecond = 0, location = UTC\<rparr>) =
   (VTime \<lparr>year = 2024, month = 2, day = 29, hour = 0, minute = 0, second = 0,
           nanosecond = 0, location = UTC\<rparr>, None)"
proof -
  let ?c = "\<lparr>Name = ''born'', Schema = [], Adaptor = Some rejecting, FieldType = DateFieldType\<rparr>"
  let ?d = "\<lparr>Year = 2024, Month = 2, Day = 29\<rparr>"
  have tag: "FieldType ?c = DateFieldType"
    by simp
  have valid: "Date_IsValid ?d \<and> within_time_range (Year ?d)"
    by (simp add: Date_IsValid_def daysIn_def isLeap_def within_time_range_def)
  have plain: "Schema ?c = [] \<or> Adaptor ?c = None"
    by simp
  from ConvertValue_DATE [OF tag, of clock_May_17 ?d] valid plain
  have 1: "ConvertValue clock_May_17 ?c (VCivilDate ?d) =
             (VTime (time_Date (Year ?d) (Month ?d) (Day ?d) 0 0 0 0 UTC), None)"
    and 2: "time_Date (Year ?d) (Month ?d) (Day ?d) 0 0 0 0 UTC =
             \<lparr>year = Year ?d, month = Month ?d, day = Day ?d, hour = 0, minute = 0,
              second = 0, nanosecond = 0, location = UTC\<rparr>"
    and 3: "ConvertValue clock_May_17 ?c (fst (ConvertValue clock_May_17 ?c (VCivilDate ?d))) =
             ConvertValue clock_May_17 ?c (VCivilDate ?d)"
    by blast+
  from 3 show ?thesis
    unfolding 1 2 by simp
qed

text \<open>
  The claim as written fails in three places.  October 32 is a civil date value, and its
  timestamp is midnight of November 1.  January 1 of the year \<open>300000000000\<close> is a date of
  the calendar, and its timestamp, after the wrap of the second count, is 16:59:44 on
  February 22 of the year \<open>- 284554049254\<close>.  And under a column tagged DATE that carries a
  nested schema and an adaptor, the second conversion hands the timestamp to the adaptor,
  whose result is not the timestamp.
\<close>

theorem ConvertValue_DATE_counterexample:
  "fst (ConvertValue clock_May_17
          \<lparr>Name = ''born'', Schema = [], Adaptor = None, FieldType = DateFieldType\<rparr>
          (VCivilDate \<lparr>Year = 2021, Month = 10, Day = 32\<rparr>)) =
   VTime \<lparr>year = 2021, month = 11, day = 1, hour = 0, minute = 0, second = 0,
          nanosecond = 0, location = UTC\<rparr> \<and>
   fst (ConvertValue clock_May_17
          \<lparr>Name = ''born'', Schema = [], Adaptor = None, FieldType = DateFieldType\<rparr>
          (VCivilDate \<lparr>Year = 300000000000, Month = 1, Day = 1\<rparr>)) =
   VTime \<lparr>year = - 284554049254, month = 2, day = 22, hour = 16, minute = 59, second = 44,
          nanosecond = 0, location = UTC\<rparr> \<and>
   ConvertValue clock_May_17
     \<lparr>Name = ''born'', Schema = tagSchema, Adaptor = Some rejecting, FieldType = DateFieldType\<rparr>
     (fst (ConvertValue clock_May_17
             \<lparr>Name = ''born'', Schema = tagSchema, Adaptor = Some rejecting,
               FieldType = DateFieldType\<rparr>
             (VCivilDate \<lparr>Year = 2024, Month = 5, Day = 17\<rparr>))) \<noteq>
   ConvertValue clock_May_17
     \<lparr>Name = ''born'', Schema = tagSchema, Adaptor = Some rejecting, FieldType = DateFieldType\<rparr>
     (VCivilDate \<lparr>Year = 2024, Month = 5, Day = 17\<rparr>)"
proof -
  have a: "time_Date 2021 10 32 0 0 0 0 UTC =
             \<lparr>year = 2021, month = 11, day = 1, hour = 0, minute = 0, second = 0,
              nanosecond = 0, location = UTC\<rparr>"
    by code_simp
  have b: "time_Date 300000000000 1 1 0 0 0 0 UTC =
             \<lparr>year = - 284554049254, month = 2, day = 22, hour = 16, minute = 59, second = 44,
              nanosecond = 0, location = UTC\<rparr>"
    by code_simp
  show ?thesis
    by (simp add: ConvertValue_def a b tagSchema_def rejecting_def
          DateFieldType_def TimeFieldType_def DateTimeFieldType_def)
qed

text \<open>
  C8 (amended).  For every column tagged DATETIME and every civil datetime whose date is a
  date of the calendar with a year of magnitude at most \<open>2.9 * 10^11\<close> and whose time
  fields are in their ranges, \<open>ConvertValue\<close> returns, with no error, a timestamp in UTC whose year,
  month, day, hour, minute, second and nanosecond equal those of the input.
\<close>

theorem ConvertValue_DATETIME:
  "FieldType column = DateTimeFieldType \<Longrightarrow> DateTime_IsValid dt \<Longrightarrow>
   within_time_range (Year (Date dt)) \<Longrightarrow>
   ConvertValue now column (VCivilDateTime dt) =
     (VTime \<lparr>year = Year (Date dt), month = Month (Date dt), day = Day (Date dt),
             hour = Hour (Time dt), minute = Minute (Time dt), second = Second (Time dt),
             nanosecond = Nanosecond (Time dt), location = UTC\<rparr>, None)"
  using temporal_tags_distinct
  by (simp add: ConvertValue_def DateTime_IsValid_def Date_IsValid_def Time_IsValid_def
        time_Date_in_range)

theorem ConvertValue_DATETIME_witness:
  "ConvertValue clock_May_17
     \<lparr>Name = ''seen'', Schema = [], Adaptor = None, FieldType = DateTimeFieldType\<rparr>
     (VCivilDateTime \<lparr>Date = \<lparr>Year = 2024, Month = 2, Day = 29\<rparr>,
                      Time = \<lparr>Hour = 23, Minute = 59, Second = 58, Nanosecond = 999999999\<rparr>\<rparr>) =
   (VTime \<lparr>year = 2024, month = 2, day = 29, hour = 23, minute = 59, second = 58,
           nanosecond = 999999999, location = UTC\<rparr>, None)"
  using ConvertValue_DATETIME
          [of "\<lparr>Name = ''seen'', Schema = [], Adaptor = None, FieldType = DateTimeFieldType\<rparr>"
              "\<lparr>Date = \<lparr>Year = 2024, Month = 2, Day = 29\<rparr>,
                Time = \<lparr>Hour = 23, Minute = 59, Second = 58, Nanosecond = 999999999\<rparr>\<rparr>"
              clock_May_17]
  by (simp add: DateTime_IsValid_def Date_IsValid_def Time_IsValid_def daysIn_def isLeap_def
        within_time_range_def)

text \<open>
  The claim as written fails for a civil datetime outside the calendar: October 32 at 00:00
  comes back as November 1, so neither month nor day equals the input's.  It fails too for
  a datetime of the calendar whose year is out of the reach of the second count: the first
  instant of the year \<open>- 292277022400\<close> comes back as 09:53:04 on November 8 of the year
  \<open>292277026853\<close>, with no field preserved.
\<close>

theorem ConvertValue_DATETIME_counterexample:
  "ConvertValue clock_May_17
     \<lparr>Name = ''seen'', Schema = [], Adaptor = None, FieldType = DateTimeFieldType\<rparr>
     (VCivilDateTime \<lparr>Date = \<lparr>Year = 2021, Month = 10, Day = 32\<rparr>,
                      Time = \<lparr>Hour = 0, Minute = 0, Second = 0, Nanosecond = 0\<rparr>\<rparr>) =
   (VTime \<lparr>year = 2021, month = 11, day = 1, hour = 0, minute = 0, second = 0,
           nanosecond = 0, location = UTC\<rparr>, None) \<and>
   ConvertValue clock_May_17
     \<lparr>Name = ''seen'', Schema = [], Adaptor = None, FieldType = DateTimeFieldType\<rparr>
     (VCivilDateTime \<lparr>Date = \<lparr>Year = - 292277022400, Month = 1, Day = 1\<rparr>,
                      Time = \<lparr>Hour = 0, Minute = 0, Second = 0, Nanosecond = 0\<rparr>\<rparr>) =
   (VTime \<lparr>year = 292277026853, month = 11, day = 8, hour = 9, minute = 53, second = 4,
           nanosecond = 0, location = UTC\<rparr>, None)"
proof -
  have a: "time_Date 2021 10 32 0 0 0 0 UTC =
             \<lparr>year = 2021, month = 11, day = 1, hour = 0, minute = 0, second = 0,
              nanosecond = 0, location = UTC\<rparr>"
    by code_simp
  have b: "time_Date (- 292277022400) 1 1 0 0 0 0 UTC =
             \<lparr>year = 292277026853, month = 11, day = 8, hour = 9, minute = 53, second = 4,
              nanosecond = 0, location = UTC\<rparr>"
    by code_simp
  show ?thesis
    by (simp add: ConvertValue_def a b DateFieldType_def TimeFieldType_def DateTimeFieldType_def)
qed

text \<open>
  C3 (amended).  \<open>ConvertValue\<close> of columns.go is a function of the column descriptor, the
  raw value and the UTC calendar date of the call.  Where the column is not tagged TIME or
  the raw value is no civil time, the result does not depend on the clock at all, and the
  later revision (which never reads the clock) returns the same; for a civil time under a
  TIME column, two calls on the same UTC day return the same value and error.
\<close>

theorem ConvertValue_clock:
  "(\<not> (FieldType column = TimeFieldType \<and> is_civil_Time v) \<longrightarrow>
      ConvertValue now column v = ConvertValue now' column v \<and>
      ConvertValue_part_000 column v = ConvertValue now column v) \<and>
   (year now = year now' \<and> month now = month now' \<and> day now = day now' \<longrightarrow>
      ConvertValue now column v = ConvertValue now' column v)"
  by (auto simp: ConvertValue_def ConvertValue_part_000_def)

theorem ConvertValue_clock_witness:
  "ConvertValue clock_May_17
     \<lparr>Name = ''at'', Schema = [], Adaptor = None, FieldType = TimeFieldType\<rparr> (VInt 3) =
   ConvertValue clock_May_18
     \<lparr>Name = ''at'', Schema = [], Adaptor = None, FieldType = TimeFieldType\<rparr> (VInt 3) \<and>
   ConvertValue clock_May_17
     \<lparr>Name = ''at'', Schema = [], Adaptor = None, FieldType = TimeFieldType\<rparr>
     (VCivilTime \<lparr>Hour = 12, Minute = 0, Second = 0, Nanosecond = 0\<rparr>) =
   ConvertValue (clock_May_17\<lparr>hour := 23\<rparr>)
     \<lparr>Name = ''at'', Schema = [], Adaptor = None, FieldType = TimeFieldType\<rparr>
     (VCivilTime \<lparr>Hour = 12, Minute = 0, Second = 0, Nanosecond = 0\<rparr>)"
  using ConvertValue_clock
          [of "\<lparr>Name = ''at'', Schema = [], Adaptor = None, FieldType = TimeFieldType\<rparr>"
              "VInt 3" clock_May_17 clock_May_18]
        ConvertValue_clock
          [of "\<lparr>Name = ''at'', Schema = [], Adaptor = None, FieldType = TimeFieldType\<rparr>"
              "VCivilTime \<lparr>Hour = 12, Minute = 0, Second = 0, Nanosecond = 0\<rparr>"
              clock_May_17 "clock_May_17\<lparr>hour := 23\<rparr>"]
  by simp

text \<open>
  The claim as written fails: the same civil time under the same TIME column converts to
  different timestamps on May 17 and on May 18.
\<close>

theorem ConvertValue_clock_counterexample:
  "ConvertValue clock_May_17
     \<lparr>Name = ''at'', Schema = [], Adaptor = None, FieldType = TimeFieldType\<rparr>
     (VCivilTime \<lparr>Hour = 12, Minute = 0, Second = 0, Nanosecond = 0\<rparr>) \<noteq>
   ConvertValue clock_May_18
     \<lparr>Name = ''at'', Schema = [], Adaptor = None, FieldType = TimeFieldType\<rparr>
     (VCivilTime \<lparr>Hour = 12, Minute = 0, Second = 0, Nanosecond = 0\<rparr>)"
proof -
  have a: "time_Date 2024 5 17 12 0 0 0 UTC =
             \<lparr>year = 2024, month = 5, day = 17, hour = 12, minute = 0, second = 0,
              nanosecond = 0, location = UTC\<rparr>"
    by code_simp
  have b: "time_Date 2024 5 18 12 0 0 0 UTC =
             \<lparr>year = 2024, month = 5, day = 18, hour = 12, minute = 0, second = 0,
              nanosecond = 0, location = UTC\<rparr>"
    by code_simp
  show ?thesis
    by (simp add: ConvertValue_def a b clock_May_17_def clock_May_18_def
          DateFieldType_def TimeFieldType_def DateTimeFieldType_def)
qed

section \<open>Properties of the rerouting protocol\<close>

text \<open>
  C1 (amended).  When the statement text equals the reroute sentinel, \<open>QueryContext\<close> fails
  with MissingReroutingArgument when no bind argument is supplied; with one or more
  arguments it looks at the first only: it fails with InvalidReroutingArgument when that
  argument's value is not a NestedToken, and with MissingSchemaAdaptor when it is one but the
  context carries no schema-adaptor capability.  These are the only failures of the reroute
  branch, checked in that order, and no remote call is made; in every other case the cursor
  over the token is returned.
\<close>

theorem QueryContext_reroute_preconditions:
  "query statement = RerouteQuery \<Longrightarrow>
   (args = [] \<longrightarrow>
      QueryContext RerouteQuery statement ctx args = (Inl MissingReroutingArgument, [])) \<and>
   (args \<noteq> [] \<and> \<not> is_bigQueryReroutedColumn (NamedValue_Value (args ! 0)) \<longrightarrow>
      QueryContext RerouteQuery statement ctx args = (Inl InvalidReroutingArgument, [])) \<and>
   (args \<noteq> [] \<and> is_bigQueryReroutedColumn (NamedValue_Value (args ! 0)) \<and>
    GetSchemaAdaptor ctx = None \<longrightarrow>
      QueryContext RerouteQuery statement ctx args = (Inl MissingSchemaAdaptor, [])) \<and>
   (args \<noteq> [] \<and> is_bigQueryReroutedColumn (NamedValue_Value (args ! 0)) \<and>
    GetSchemaAdaptor ctx \<noteq> None \<longrightarrow>
      QueryContext RerouteQuery statement ctx args =
        (Inr \<lparr>source = createSourceFromColumn
                 (createBigQuerySchema (rerouted_schema (NamedValue_Value (args ! 0)))
                    (GetSchemaAdaptor ctx))
                 (rerouted_values (NamedValue_Value (args ! 0)))\<rparr>, []))"
  by (simp add: QueryContext_def MissingReroutingArgument_def InvalidReroutingArgument_def
        MissingSchemaAdaptor_def Let_def)

theorem QueryContext_reroute_preconditions_witness:
  "QueryContext ''REROUTE'' rerouteStatement contextWithoutCapability [] =
     (Inl MissingReroutingArgument, []) \<and>
   QueryContext ''REROUTE'' rerouteStatement contextWithoutCapability [plainArgument] =
     (Inl InvalidReroutingArgument, []) \<and>
   QueryContext ''REROUTE'' rerouteStatement contextWithoutCapability [tagsArgument] =
     (Inl MissingSchemaAdaptor, []) \<and>
   QueryContext ''REROUTE'' rerouteStatement contextWithCapability [tagsArgument] =
     (Inr \<lparr>source = createSourceFromColumn
              (createBigQuerySchema tagSchema (Some emptyCapability))
              [VSlice [VString ''x''], VSlice [VString ''y'']]\<rparr>, [])"
proof -
  have q: "query rerouteStatement = ''REROUTE''"
    by (simp add: rerouteStatement_def)
  show ?thesis
    using QueryContext_reroute_preconditions [OF q, of "[]" contextWithoutCapability]
          QueryContext_reroute_preconditions [OF q, of "[plainArgument]" contextWithoutCapability]
          QueryContext_reroute_preconditions [OF q, of "[tagsArgument]" contextWithoutCapability]
          QueryContext_reroute_preconditions [OF q, of "[tagsArgument]" contextWithCapability]
    by (simp add: plainArgument_def tagsArgument_def tagsToken_def GetSchemaAdaptor_def
          contextWithCapability_def contextWithoutCapability_def)
qed

text \<open>
  The claim as written fails for two bind arguments: with a token first and a capability in
  the context the call succeeds, as it does with the token alone.
\<close>

theorem QueryContext_two_arguments_counterexample:
  "length [tagsArgument, plainArgument] \<noteq> 1 \<and>
   fst (QueryContext ''REROUTE'' rerouteStatement contextWithCapability
          [tagsArgument, plainArgument]) \<noteq> Inl MissingReroutingArgument \<and>
   fst (QueryContext ''REROUTE'' rerouteStatement contextWithCapability
          [tagsArgument, plainArgument]) =
   fst (QueryContext ''REROUTE'' rerouteStatement contextWithCapability [tagsArgument])"
  by (simp add: QueryContext_def rerouteStatement_def contextWithCapability_def
        GetSchemaAdaptor_def tagsArgument_def tagsToken_def Let_def)

text \<open>
  C2.  For every NestedToken with values \<open>V\<close> and schema \<open>S\<close>, a reroute query carrying the
  token as its bind argument, in a context that supplies a schema-adaptor capability, returns
  a cursor and makes no remote call.  The cursor's column names are the names of \<open>S\<close> in
  order; its rows are the elements of \<open>V\<close> in order, each read through the Value Converter
  under the Schema built from \<open>S\<close> with that capability, whose columns are those of \<open>S\<close>
  with the adaptor the capability gives for each name.
\<close>

theorem QueryContext_reroute_cursor:
  "query statement = RerouteQuery \<Longrightarrow> GetSchemaAdaptor ctx = Some sa \<Longrightarrow>
   QueryContext RerouteQuery statement ctx
     [\<lparr>NamedValue_Name = n, Ordinal = k, NamedValue_Value = VRerouted V S\<rparr>] =
     (Inr \<lparr>source = createSourceFromColumn (createBigQuerySchema S (Some sa)) V\<rparr>, []) \<and>
   Columns \<lparr>source = createSourceFromColumn (createBigQuerySchema S (Some sa)) V\<rparr> =
     map FieldSchema_Name S \<and>
   readAll now \<lparr>source = createSourceFromColumn (createBigQuerySchema S (Some sa)) V\<rparr> =
     map (readRow now (createBigQuerySchema S (Some sa))) V \<and>
   columns (createBigQuerySchema S (Some sa)) =
     map (\<lambda>f. \<lparr>Name = FieldSchema_Name f, Schema = FieldSchema_Schema f,
                Adaptor = GetColumnAdaptor sa (FieldSchema_Name f),
                FieldType = FieldSchema_Type f\<rparr>) S"
  by (simp add: QueryContext_def Let_def Columns_def GetSchema_def readAll_def pendingRows_def
        createBigQuerySchema_names createBigQuerySchema_columns)

theorem QueryContext_reroute_cursor_witness:
  "QueryContext ''REROUTE'' rerouteStatement contextWithCapability [tagsArgument] =
     (Inr \<lparr>source = createSourceFromColumn
              (createBigQuerySchema tagSchema (Some emptyCapability))
              [VSlice [VString ''x''], VSlice [VString ''y'']]\<rparr>, []) \<and>
   Columns \<lparr>source = createSourceFromColumn
              (createBigQuerySchema tagSchema (Some emptyCapability))
              [VSlice [VString ''x''], VSlice [VString ''y'']]\<rparr> = [''tag''] \<and>
   readAll clock_May_17
     \<lparr>source = createSourceFromColumn
              (createBigQuerySchema tagSchema (Some emptyCapability))
              [VSlice [VString ''x''], VSlice [VString ''y'']]\<rparr> =
     [Some (Inr [VString ''x'']), Some (Inr [VString ''y''])]"
proof -
  have q: "query rerouteStatement = ''REROUTE''"
    by (simp add: rerouteStatement_def)
  have c: "GetSchemaAdaptor contextWithCapability = Some emptyCapability"
    by (simp add: GetSchemaAdaptor_def contextWithCapability_def)
  have cols: "columns (createBigQuerySchema tagSchema (Some emptyCapability)) =
                [\<lparr>Name = ''tag'', Schema = [], Adaptor = None, FieldType = ''STRING''\<rparr>]"
    by (simp add: createBigQuerySchema_def tagSchema_def emptyCapability_def Let_def)
  have rd: "map (readRow clock_May_17 (createBigQuerySchema tagSchema (Some emptyCapability)))
              [VSlice [VString ''x''], VSlice [VString ''y'']] =
            [Some (Inr [VString ''x'']), Some (Inr [VString ''y''])]"
    by (simp add: readRow_def ConvertColumnValue_def cols ConvertValue_def
          DateFieldType_def TimeFieldType_def DateTimeFieldType_def)
  have names: "map FieldSchema_Name tagSchema = [''tag'']"
    by (simp add: tagSchema_def)
  show ?thesis
    using QueryContext_reroute_cursor [OF q c, where n = "[]" and k = 1
            and V = "[VSlice [VString ''x''], VSlice [VString ''y'']]" and S = tagSchema
            and now = clock_May_17]
    unfolding rd names by (simp add: tagsArgument_def tagsToken_def)
qed

end
